theory Spec2Isabelle
  imports Complex_Main
begin

section \<open>Values of the embedding\<close>

text \<open>
  A numpy array is its shape and its elements in row-major (C) order. Elements are
  real numbers: the integer and floating-point element types of numpy are not told
  apart, and arithmetic on elements is exact.
\<close>

record ndarray =
  shape :: "nat list"
  data :: "real list"

definition wf_ndarray :: "ndarray \<Rightarrow> bool" where
  "wf_ndarray a = (length (data a) = prod_list (shape a))"

text \<open>
  First-order Python values: \<open>VNone\<close> is \<open>None\<close>, \<open>VNum\<close> a number, \<open>VStr\<close> a string,
  \<open>VArr\<close> a numpy array (a numpy scalar counts as the 0-dimensional array it behaves as),
  \<open>VSeq\<close> a tuple or list, \<open>VObj\<close> any other object: not callable, not iterable, without
  a \<open>shape\<close> attribute.
\<close>

datatype val = VNone | VNum real | VStr string | VArr ndarray | VSeq "val list" | VObj

datatype error =
    ValueError string
  | AssertionError string
  | AttributeError
  | IndexError
  | TypeError
  | ZeroDivisionError

text \<open>
  A positional argument is a value or a callable. A callable receives first-order values
  and returns a value or raises.
\<close>

datatype arg = Val val | Callable "val list \<Rightarrow> error + val"

type_synonym kwargs = "string \<Rightarrow> val option"

definition bindE :: "error + 'a \<Rightarrow> ('a \<Rightarrow> error + 'b) \<Rightarrow> error + 'b" where
  "bindE m f = (case m of Inl e \<Rightarrow> Inl e | Inr v \<Rightarrow> f v)"

text \<open>\<open>callable(f)\<close>.\<close>

fun callable :: "arg \<Rightarrow> bool" where
  "callable (Callable g) = True"
| "callable (Val v) = False"

text \<open>
  What a callable sees of a positional argument: a value as it is, another callable as an
  opaque object.
\<close>

fun as_val :: "arg \<Rightarrow> val" where
  "as_val (Val v) = v"
| "as_val (Callable g) = VObj"

text \<open>\<open>a.shape\<close>: only arrays have the attribute.\<close>

fun shape_attr :: "arg \<Rightarrow> error + nat list" where
  "shape_attr (Val (VArr a)) = Inr (shape a)"
| "shape_attr a = Inl AttributeError"

text \<open>\<open>a.shape == b.shape\<close>, the left operand read first.\<close>

definition shapes_eq :: "arg \<Rightarrow> arg \<Rightarrow> error + bool" where
  "shapes_eq a b = bindE (shape_attr a) (\<lambda>sa. bindE (shape_attr b) (\<lambda>sb. Inr (sa = sb)))"

text \<open>
  Python's \<open>and\<close> over a chain of tests: left to right, stopping at the first test that is
  false or raises.
\<close>

fun and_chain :: "(error + bool) list \<Rightarrow> error + bool" where
  "and_chain [] = Inr True"
| "and_chain (Inl e # cs) = Inl e"
| "and_chain (Inr False # cs) = Inr False"
| "and_chain (Inr True # cs) = and_chain cs"

text \<open>
  Unpacking into three names, \<open>u, v, w = r\<close>: a sequence of three items, an array whose
  first axis has length three, or a string of three characters.
\<close>

definition subarray :: "ndarray \<Rightarrow> nat list \<Rightarrow> nat \<Rightarrow> ndarray" where
  "subarray a rest off =
     \<lparr>shape = rest, data = map (\<lambda>t. data a ! (off + t)) [0..<prod_list rest]\<rparr>"

fun unpack3 :: "val \<Rightarrow> error + (val \<times> val \<times> val)" where
  "unpack3 (VSeq [a, b, c]) = Inr (a, b, c)"
| "unpack3 (VSeq xs) = Inl (ValueError ''wrong number of values to unpack'')"
| "unpack3 (VArr a) =
     (case shape a of
        [] \<Rightarrow> Inl TypeError
      | n # rest \<Rightarrow>
          if n = 3
          then Inr (VArr (subarray a rest 0),
                    VArr (subarray a rest (prod_list rest)),
                    VArr (subarray a rest (2 * prod_list rest)))
          else Inl (ValueError ''wrong number of values to unpack''))"
| "unpack3 (VStr s) =
     (case s of
        [a, b, c] \<Rightarrow> Inr (VStr [a], VStr [b], VStr [c])
      | _ \<Rightarrow> Inl (ValueError ''wrong number of values to unpack''))"
| "unpack3 v = Inl TypeError"

section \<open>The numpy operations the module calls\<close>

text \<open>All index tuples of a shape, in row-major order.\<close>

fun multi_indices :: "nat list \<Rightarrow> nat list list" where
  "multi_indices [] = [[]]"
| "multi_indices (n # ns) = concat (map (\<lambda>i. map (\<lambda>r. i # r) (multi_indices ns)) [0..<n])"

text \<open>The position of an index tuple in the row-major element list.\<close>

definition offset :: "nat list \<Rightarrow> nat list \<Rightarrow> nat" where
  "offset sh idx = foldl (\<lambda>acc (n, i). acc * n + i) 0 (zip sh idx)"

text \<open>\<open>numpy.indices(sh)\<close>: one array per axis, holding at each position its index on that axis.\<close>

definition indices :: "nat list \<Rightarrow> ndarray list" where
  "indices sh =
     map (\<lambda>k. \<lparr>shape = sh, data = map (\<lambda>idx. real (idx ! k)) (multi_indices sh)\<rparr>)
         [0..<length sh]"

text \<open>\<open>a.ravel()\<close>: the elements in row-major order, as a 1-dimensional array.\<close>

definition ravel :: "ndarray \<Rightarrow> ndarray" where
  "ravel a = \<lparr>shape = [prod_list (shape a)], data = data a\<rparr>"

text \<open>\<open>a.T\<close>: the axes reversed.\<close>

definition T :: "ndarray \<Rightarrow> ndarray" where
  "T a =
     \<lparr>shape = rev (shape a),
      data = map (\<lambda>idx. data a ! offset (shape a) (rev idx)) (multi_indices (rev (shape a)))\<rparr>"

text \<open>
  \<open>numpy.c_[a, b, c]\<close> on three 1-dimensional arrays (every call site passes raveled
  arrays): the arrays as the columns of an n-by-3 array; arrays of different lengths are
  refused.
\<close>

definition c_columns :: "ndarray \<Rightarrow> ndarray \<Rightarrow> ndarray \<Rightarrow> error + ndarray" where
  "c_columns a b c =
     (if shape a = shape b \<and> shape b = shape c
      then Inr \<lparr>shape = [prod_list (shape a), 3],
                data = concat (map (\<lambda>(p, q, r). [p, q, r])
                                   (zip (data a) (zip (data b) (data c))))\<rparr>
      else Inl (ValueError ''array dimensions must agree''))"

text \<open>\<open>len(a)\<close>: the length of the first axis.\<close>

definition len :: "ndarray \<Rightarrow> error + nat" where
  "len a = (case shape a of [] \<Rightarrow> Inl TypeError | n # rest \<Rightarrow> Inr n)"

text \<open>
  \<open>a[i, j, k]\<close> and \<open>a[i, j]\<close> with non-negative indices: the element, or the sub-array
  when the array has more axes than indices; too few axes or an index out of range raise.
\<close>

definition getitem3 :: "ndarray \<Rightarrow> nat \<Rightarrow> nat \<Rightarrow> nat \<Rightarrow> error + ndarray" where
  "getitem3 a i j k =
     (case shape a of
        n0 # n1 # n2 # rest \<Rightarrow>
          if i < n0 \<and> j < n1 \<and> k < n2
          then Inr (subarray a rest (((i * n1 + j) * n2 + k) * prod_list rest))
          else Inl IndexError
      | _ \<Rightarrow> Inl IndexError)"

definition getitem2 :: "ndarray \<Rightarrow> nat \<Rightarrow> nat \<Rightarrow> error + ndarray" where
  "getitem2 a i j =
     (case shape a of
        n0 # n1 # rest \<Rightarrow>
          if i < n0 \<and> j < n1
          then Inr (subarray a rest ((i * n1 + j) * prod_list rest))
          else Inl IndexError
      | _ \<Rightarrow> Inl IndexError)"

text \<open>\<open>a - b\<close> on two arrays of one shape, element by element.\<close>

definition sub :: "ndarray \<Rightarrow> ndarray \<Rightarrow> ndarray" where
  "sub a b = \<lparr>shape = shape a, data = map (\<lambda>(p, q). p - q) (zip (data a) (data b))\<rparr>"

text \<open>\<open>a[i, j, k] - a[0, 0, 0]\<close>, the left operand read first.\<close>

definition delta :: "ndarray \<Rightarrow> nat \<Rightarrow> nat \<Rightarrow> nat \<Rightarrow> error + ndarray" where
  "delta a i j k =
     bindE (getitem3 a i j k) (\<lambda>p. bindE (getitem3 a 0 0 0) (\<lambda>q. Inr (sub p q)))"

text \<open>An entry of a Python list of numbers: a 0-dimensional result is the number it holds.\<close>

definition item :: "ndarray \<Rightarrow> val" where
  "item a = (case (shape a, data a) of ([], [r]) \<Rightarrow> VNum r | _ \<Rightarrow> VArr a)"

text \<open>\<open>a.min()\<close> and \<open>a.max()\<close>: an array with no element is refused.\<close>

definition amin :: "ndarray \<Rightarrow> error + real" where
  "amin a =
     (if data a = [] then Inl (ValueError ''zero-size array'') else Inr (Min (set (data a))))"

definition amax :: "ndarray \<Rightarrow> error + real" where
  "amax a =
     (if data a = [] then Inl (ValueError ''zero-size array'') else Inr (Max (set (data a))))"

text \<open>\<open>a[..., numpy.newaxis]\<close>: one more axis of length 1 at the end.\<close>

definition newaxis_last :: "ndarray \<Rightarrow> ndarray" where
  "newaxis_last a = \<lparr>shape = shape a @ [1], data = data a\<rparr>"

text \<open>
  \<open>numpy.concatenate(arrays, axis)\<close>: the arrays joined along one axis; the axis must
  exist and the other axes must agree.
\<close>

definition concatenate :: "ndarray list \<Rightarrow> nat \<Rightarrow> error + ndarray" where
  "concatenate arrs axis =
     (case arrs of
        [] \<Rightarrow> Inl (ValueError ''need at least one array to concatenate'')
      | a # rest \<Rightarrow>
          if \<not> (\<forall>b \<in> set arrs. axis < length (shape b))
          then Inl (ValueError ''bad axis argument'')
          else if \<not> (\<forall>b \<in> set rest. take axis (shape b) = take axis (shape a)
                                     \<and> drop (Suc axis) (shape b) = drop (Suc axis) (shape a))
          then Inl (ValueError ''array dimensions must agree'')
          else
            let outer = prod_list (take axis (shape a));
                block = (\<lambda>b. prod_list (drop axis (shape b)))
            in Inr \<lparr>shape = (shape a)[axis := sum_list (map (\<lambda>b. shape b ! axis) arrs)],
                    data = concat (map (\<lambda>blk.
                             concat (map (\<lambda>b. map (\<lambda>t. data b ! (blk * block b + t))
                                                   [0..<block b]) arrs))
                             [0..<outer])\<rparr>)"

text \<open>\<open>numpy.zeros((n, m), 'l')\<close>: n rows of m zeros; a negative extent is refused.\<close>

definition zeros :: "int \<Rightarrow> nat \<Rightarrow> error + int list list" where
  "zeros n m =
     (if n < 0 then Inl (ValueError ''negative dimensions are not allowed'')
      else Inr (replicate (nat n) (replicate m 0)))"

text \<open>
  \<open>numpy.arange(start, stop, step, 'l')\<close> with integer start and step:
  \<open>ceil((stop - start) / step)\<close> values (none when that is not positive), beginning at
  \<open>start\<close> and advancing by \<open>step\<close>.
\<close>

definition arange :: "int \<Rightarrow> real \<Rightarrow> int \<Rightarrow> error + int list" where
  "arange start stop step =
     (if step = 0 then Inl ZeroDivisionError
      else Inr (map (\<lambda>i. start + int i * step)
                    [0..<nat \<lceil>(stop - real_of_int start) / real_of_int step\<rceil>]))"

text \<open>
  \<open>rows[:, c] = vals\<close>: the column is overwritten; the values must be as many as the rows,
  or a single value, which is repeated.
\<close>

definition set_column :: "int list list \<Rightarrow> nat \<Rightarrow> int list \<Rightarrow> error + int list list" where
  "set_column rows c vals =
     (if length vals = length rows
      then Inr (map (\<lambda>(r, v). r[c := v]) (zip rows vals))
      else if length vals = 1
      then Inr (map (\<lambda>r. r[c := hd vals]) rows)
      else Inl (ValueError ''shape mismatch''))"

text \<open>
  \<open>numpy.linspace(start, stop, num)\<close>: \<open>num\<close> evenly spaced samples from \<open>start\<close> to
  \<open>stop\<close>, both included.
\<close>

definition linspace :: "real \<Rightarrow> real \<Rightarrow> nat \<Rightarrow> ndarray" where
  "linspace start stop num =
     \<lparr>shape = [num],
      data = (if num = 1 then [start]
              else map (\<lambda>i. start + real i * ((stop - start) / real (num - 1))) [0..<num])\<rparr>"

text \<open>\<open>kwargs.pop(key, default)\<close>: the value and the dictionary without the key.\<close>

definition pop :: "kwargs \<Rightarrow> string \<Rightarrow> val \<Rightarrow> val \<times> kwargs" where
  "pop kw key dflt = (case kw key of None \<Rightarrow> (dflt, kw) | Some v \<Rightarrow> (v, kw(key := None)))"

section \<open>The objects the builders hand over\<close>

text \<open>
  The renderer-native objects are built by collaborators outside the module
  (\<open>ArraySource\<close>, \<open>tvtk.PolyData\<close>, the \<open>mlab\<close> helpers). Each is the record of what the
  builder passes to its constructor and writes to it afterwards; the collaborators are
  taken to accept what they are given.
\<close>

text \<open>
  \<open>ArraySource(...)\<close>: a keyword that a call does not pass is \<open>None\<close> here;
  \<open>scalar_data = Some VNone\<close> is the keyword passed with the value \<open>None\<close>.
\<close>

record array_source =
  transpose_input_array :: "bool option"
  scalar_data :: "val option"
  vector_data :: "ndarray option"
  origin :: "val list"
  spacing :: "val list"

text \<open>\<open>tvtk.PolyData(points=..., lines=...)\<close> and its \<open>point_data.scalars\<close>.\<close>

record poly_data =
  points :: ndarray
  lines :: "int list list"
  point_scalars :: "ndarray option"

text \<open>\<open>mlab.Glyphs(points, vectors, scalars).poly_data\<close>.\<close>

record glyph_data =
  glyph_points :: ndarray
  glyph_vectors :: val
  glyph_scalars :: val

text \<open>
  \<open>mlab._create_structured_points_direct(xa, ya)\<close> and the attributes the builder writes;
  an attribute the builder has not written is \<open>None\<close>.
\<close>

record structured_points =
  axis_x :: ndarray
  axis_y :: ndarray
  sp_scalars :: "ndarray option"
  scalar_type :: "string option"
  number_of_scalar_components :: "nat option"

text \<open>
  \<open>mlab.make_triangle_polydata(triangles, points, scalars)\<close> on the result of
  \<open>mlab.make_triangles_points(x, y, z, scalars)\<close>.
\<close>

record triangle_polydata =
  mesh_x :: val
  mesh_y :: val
  mesh_z :: val
  mesh_scalars :: val

datatype data_source =
    ArraySource array_source
  | PolyData poly_data
  | GlyphData glyph_data
  | StructuredPoints structured_points
  | TrianglePolyData triangle_polydata

text \<open>
  Modelled from the spec: \<open>tools._add_data\<close> is not among the sources. The spec gives it
  as the registration collaborator, "a function taking (built object, display name) and
  returning the object attached to a visualization scene", whose return the module passes
  back unread. A builder's result is therefore the registration it asks for.
\<close>

record registration =
  reg_object :: data_source
  reg_name :: val

definition add_data :: "data_source \<Rightarrow> val \<Rightarrow> registration" where
  "add_data data_source name = \<lparr>reg_object = data_source, reg_name = name\<rparr>"

definition make_glyph_data :: "ndarray \<Rightarrow> val \<Rightarrow> val \<Rightarrow> data_source" where
  "make_glyph_data pts vectors scalars =
     GlyphData \<lparr>glyph_points = pts, glyph_vectors = vectors, glyph_scalars = scalars\<rparr>"

section \<open>Argument processing\<close>

text \<open>The array behind an argument that has passed the shape tests.\<close>

fun the_array :: "arg \<Rightarrow> error + ndarray" where
  "the_array (Val (VArr a)) = Inr a"
| "the_array a = Inl AttributeError"

text \<open>The closing assertion of \<open>process_regular_vectors\<close> and its return.\<close>

definition return_vectors ::
  "arg \<Rightarrow> arg \<Rightarrow> arg \<Rightarrow> arg \<Rightarrow> arg \<Rightarrow> arg
   \<Rightarrow> error + (ndarray \<times> ndarray \<times> ndarray \<times> ndarray \<times> ndarray \<times> ndarray)" where
  "return_vectors x y z u v w =
     bindE (and_chain [shapes_eq x y, shapes_eq y z, shapes_eq u z, shapes_eq v u,
                       shapes_eq w v])
       (\<lambda>ok. if \<not> ok then Inl (AssertionError ''argument shape are not equal'')
              else bindE (the_array x) (\<lambda>x'. bindE (the_array y) (\<lambda>y'.
                   bindE (the_array z) (\<lambda>z'. bindE (the_array u) (\<lambda>u'.
                   bindE (the_array v) (\<lambda>v'. bindE (the_array w) (\<lambda>w'.
                   Inr (x', y', z', u', v', w'))))))))"

fun process_regular_vectors ::
  "arg list \<Rightarrow> error + (ndarray \<times> ndarray \<times> ndarray \<times> ndarray \<times> ndarray \<times> ndarray)" where
  "process_regular_vectors [u, v, w] =
     bindE (shape_attr u) (\<lambda>sh.
       if length sh \<noteq> 3 then Inl (AssertionError ''3D array required'')
       else (case indices sh of
               [x, y, z] \<Rightarrow> return_vectors (Val (VArr x)) (Val (VArr y)) (Val (VArr z)) u v w
             | _ \<Rightarrow> Inl (ValueError ''wrong number of values to unpack'')))"
| "process_regular_vectors [x, y, z, u, v, w] = return_vectors x y z u v w"
| "process_regular_vectors [x, y, z, f] =
     (case f of
        Val _ \<Rightarrow>
          Inl (ValueError ''When 4 arguments are provided, the fourth must be a callable'')
      | Callable g \<Rightarrow>
          bindE (g [as_val x, as_val y, as_val z]) (\<lambda>r.
          bindE (unpack3 r) (\<lambda>(u, v, w). return_vectors x y z (Val u) (Val v) (Val w))))"
| "process_regular_vectors args = Inl (ValueError ''wrong number of arguments'')"

text \<open>
  \<open>s == None\<close>: true of \<open>None\<close> alone (an array compared with \<open>None\<close> is false, as in the
  numpy the module was written for).
\<close>

fun is_none :: "arg \<Rightarrow> bool" where
  "is_none (Val VNone) = True"
| "is_none a = False"

text \<open>The closing assertion of \<open>process_regular_scalars\<close> and its return.\<close>

definition return_scalars ::
  "arg \<Rightarrow> arg \<Rightarrow> arg \<Rightarrow> arg \<Rightarrow> error + (ndarray \<times> ndarray \<times> ndarray \<times> ndarray option)" where
  "return_scalars x y z s =
     bindE (and_chain [shapes_eq x y, shapes_eq y z,
                       if is_none s then Inr True else shapes_eq s z])
       (\<lambda>ok. if \<not> ok then Inl (AssertionError ''argument shape are not equal'')
              else bindE (the_array x) (\<lambda>x'. bindE (the_array y) (\<lambda>y'.
                   bindE (the_array z) (\<lambda>z'.
                   if is_none s then Inr (x', y', z', None)
                   else bindE (the_array s) (\<lambda>s'. Inr (x', y', z', Some s'))))))"

fun process_regular_scalars ::
  "arg list \<Rightarrow> error + (ndarray \<times> ndarray \<times> ndarray \<times> ndarray option)" where
  "process_regular_scalars [s] =
     bindE (shape_attr s) (\<lambda>sh.
       if length sh \<noteq> 3 then Inl (AssertionError ''3D array required'')
       else (case indices sh of
               [x, y, z] \<Rightarrow> return_scalars (Val (VArr x)) (Val (VArr y)) (Val (VArr z)) s
             | _ \<Rightarrow> Inl (ValueError ''wrong number of values to unpack'')))"
| "process_regular_scalars [x, y, z] = return_scalars x y z (Val VNone)"
| "process_regular_scalars [x, y, z, s] =
     (case s of
        Callable g \<Rightarrow>
          bindE (g [as_val x, as_val y, as_val z]) (\<lambda>r. return_scalars x y z (Val r))
      | Val _ \<Rightarrow> return_scalars x y z s)"
| "process_regular_scalars args = Inl (ValueError ''wrong number of arguments'')"

text \<open>The closing assertion of \<open>process_regular_2d_scalars\<close> and its return.\<close>

definition return_2d_scalars ::
  "arg \<Rightarrow> arg \<Rightarrow> arg \<Rightarrow> error + (ndarray \<times> ndarray \<times> ndarray)" where
  "return_2d_scalars x y s =
     bindE (and_chain [shapes_eq x y, shapes_eq s y])
       (\<lambda>ok. if \<not> ok then Inl (AssertionError ''argument shape are not equal'')
              else bindE (the_array x) (\<lambda>x'. bindE (the_array y) (\<lambda>y'.
                   bindE (the_array s) (\<lambda>s'. Inr (x', y', s')))))"

fun process_regular_2d_scalars :: "arg list \<Rightarrow> error + (ndarray \<times> ndarray \<times> ndarray)" where
  "process_regular_2d_scalars [s] =
     bindE (shape_attr s) (\<lambda>sh.
       if length sh \<noteq> 2 then Inl (AssertionError ''2D array required'')
       else (case indices sh of
               [x, y] \<Rightarrow> return_2d_scalars (Val (VArr x)) (Val (VArr y)) s
             | _ \<Rightarrow> Inl (ValueError ''wrong number of values to unpack'')))"
| "process_regular_2d_scalars [x, y, s] =
     (case s of
        Callable g \<Rightarrow> bindE (g [as_val x, as_val y]) (\<lambda>r. return_2d_scalars x y (Val r))
      | Val _ \<Rightarrow> return_2d_scalars x y s)"
| "process_regular_2d_scalars args = Inl (ValueError ''wrong number of arguments'')"

section \<open>Sources\<close>

text \<open>\<open>s\<close> as the builders pass it on: \<open>None\<close> or the array.\<close>

fun opt_val :: "ndarray option \<Rightarrow> val" where
  "opt_val None = VNone"
| "opt_val (Some a) = VArr a"

definition vectorscatter :: "arg list \<Rightarrow> kwargs \<Rightarrow> error + registration" where
  "vectorscatter args kwargs =
     bindE (process_regular_vectors args) (\<lambda>(x, y, z, u, v, w).
     bindE (c_columns (ravel x) (ravel y) (ravel z)) (\<lambda>pts.
     bindE (c_columns (ravel u) (ravel v) (ravel w)) (\<lambda>vectors.
       let (scalars, kwargs1) = pop kwargs ''scalar'' VNone;
           (name, kwargs2) = pop kwargs1 ''name'' (VStr ''VectorScatter'');
           data_source = make_glyph_data pts (VArr vectors) scalars
       in Inr (add_data data_source name))))"

definition vectorfield :: "arg list \<Rightarrow> kwargs \<Rightarrow> error + registration" where
  "vectorfield args kwargs =
     bindE (process_regular_vectors args) (\<lambda>(x, y, z, u, v, w).
     bindE (delta x 1 0 0) (\<lambda>dx.
     bindE (delta y 0 1 0) (\<lambda>dy.
     bindE (delta z 0 0 1) (\<lambda>dz.
     bindE (concatenate [newaxis_last u, newaxis_last v, newaxis_last w] 3) (\<lambda>vectors.
       let (scalars, kwargs1) = pop kwargs ''scalars'' VNone;
           kwargs2 = (if scalars \<noteq> VNone then Map.empty(''scalar_data'' \<mapsto> scalars)
                      else Map.empty)
       in
     bindE (amin x) (\<lambda>xmin.
     bindE (amin y) (\<lambda>ymin.
     bindE (amin z) (\<lambda>zmin.
       let data_source = ArraySource
             \<lparr>transpose_input_array = Some True,
              scalar_data = kwargs2 ''scalar_data'',
              vector_data = Some vectors,
              origin = [VNum xmin, VNum ymin, VNum zmin],
              spacing = [item dx, item dy, item dz]\<rparr>;
           (name, kwargs3) = pop kwargs2 ''name'' (VStr ''VectorField'')
       in Inr (add_data data_source name)))))))))"

definition scalarscatter :: "arg list \<Rightarrow> kwargs \<Rightarrow> error + registration" where
  "scalarscatter args kwargs =
     bindE (process_regular_scalars args) (\<lambda>(x, y, z, s).
     bindE (c_columns (ravel x) (ravel y) (ravel z)) (\<lambda>pts.
       let s1 = (case s of None \<Rightarrow> None | Some a \<Rightarrow> Some (ravel a));
           data_source = make_glyph_data pts VNone (opt_val s1);
           (name, kwargs1) = pop kwargs ''name'' (VStr ''ScalarScatter'')
       in Inr (add_data data_source name)))"

definition scalarfield :: "arg list \<Rightarrow> kwargs \<Rightarrow> error + registration" where
  "scalarfield args kwargs =
     bindE (process_regular_scalars args) (\<lambda>(x, y, z, s).
     bindE (c_columns (ravel x) (ravel y) (ravel z)) (\<lambda>pts.
     bindE (delta x 1 0 0) (\<lambda>dx.
     bindE (delta y 0 1 0) (\<lambda>dy.
     bindE (delta z 0 0 1) (\<lambda>dz.
     bindE (getitem2 pts 0 0) (\<lambda>p0.
     bindE (getitem2 pts 0 1) (\<lambda>p1.
     bindE (getitem2 pts 0 2) (\<lambda>p2.
       let data_source = ArraySource
             \<lparr>transpose_input_array = None,
              scalar_data = Some (opt_val s),
              vector_data = None,
              origin = [item p0, item p1, item p2],
              spacing = [item dx, item dy, item dz]\<rparr>;
           (name, kwargs1) = pop kwargs ''name'' (VStr ''ScalarField'')
       in Inr (add_data data_source name)))))))))"

definition linesource :: "arg list \<Rightarrow> kwargs \<Rightarrow> error + registration" where
  "linesource args kwargs =
     (if length args = 1 then Inl (ValueError ''wrong number of arguments'')
      else
        bindE (process_regular_scalars args) (\<lambda>(x, y, z, s).
        bindE (c_columns (ravel x) (ravel y) (ravel z)) (\<lambda>pts.
        bindE (len pts) (\<lambda>n.
          let np = int n - 1 in
        bindE (zeros np 2) (\<lambda>lines0.
        bindE (arange 0 (real_of_int np - 0.5) 1) (\<lambda>col0.
        bindE (set_column lines0 0 col0) (\<lambda>lines1.
        bindE (arange 1 (real_of_int np + 0.5) 1) (\<lambda>col1.
        bindE (set_column lines1 1 col1) (\<lambda>lines2.
          let data_source = \<lparr>points = pts, lines = lines2, point_scalars = None\<rparr>;
              data_source1 = (case s of
                                None \<Rightarrow> data_source
                              | Some a \<Rightarrow> data_source\<lparr>point_scalars := Some (ravel a)\<rparr>);
              (name, kwargs1) = pop kwargs ''name'' (VStr ''LineSource'')
          in Inr (add_data (PolyData data_source1) name))))))))))"

text \<open>\<open>nx, ny = s.shape\<close>.\<close>

fun unpack_shape2 :: "nat list \<Rightarrow> error + (nat \<times> nat)" where
  "unpack_shape2 [nx, ny] = Inr (nx, ny)"
| "unpack_shape2 sh = Inl (ValueError ''wrong number of values to unpack'')"

definition array2dsource :: "arg list \<Rightarrow> kwargs \<Rightarrow> error + registration" where
  "array2dsource args kwargs =
     bindE
       (if length args = 1
        then
          bindE (shape_attr (hd args)) (\<lambda>sh.
          bindE (unpack_shape2 sh) (\<lambda>(nx, ny).
          bindE (the_array (hd args)) (\<lambda>s.
            Inr (ArraySource
                   \<lparr>transpose_input_array = Some True,
                    scalar_data = Some (VArr s),
                    vector_data = None,
                    origin = [VNum (- real nx / 2), VNum (real ny / 2), VNum 0],
                    spacing = [VNum 1, VNum 1, VNum 1]\<rparr>))))
        else
          bindE (process_regular_2d_scalars args) (\<lambda>(x, y, s).
            if length (shape s) \<noteq> 2 then Inl (AssertionError ''2D array required'')
            else
          bindE (unpack_shape2 (shape s)) (\<lambda>(nx, ny).
          bindE (amin x) (\<lambda>xmin.
          bindE (amax x) (\<lambda>xmax.
            let xa = linspace xmin xmax nx in
          bindE (amin y) (\<lambda>ymin.
          bindE (amax y) (\<lambda>ymax.
            let ya = linspace ymin ymax ny;
                data_source = \<lparr>axis_x = xa, axis_y = ya, sp_scalars = None,
                               scalar_type = None, number_of_scalar_components = None\<rparr>;
                s1 = T s;
                s2 = ravel s1
            in Inr (StructuredPoints
                      (data_source\<lparr>sp_scalars := Some s2,
                                    scalar_type := Some ''unsigned_char'',
                                    number_of_scalar_components := Some 1\<rparr>)))))))))
       (\<lambda>data_source.
          let (name, kwargs1) = pop kwargs ''name'' (VStr ''Array2DSource'')
          in Inr (add_data data_source name))"

definition gridsource :: "val \<Rightarrow> val \<Rightarrow> val \<Rightarrow> kwargs \<Rightarrow> error + registration" where
  "gridsource x y z kwargs =
     (let (scalars, kwargs1) = pop kwargs ''scalars'' VNone;
          scalars1 = (if scalars = VNone then z else scalars);
          (name, kwargs2) = pop kwargs1 ''name'' (VStr ''GridSource'');
          data_source = TrianglePolyData
            \<lparr>mesh_x = x, mesh_y = y, mesh_z = z, mesh_scalars = scalars1\<rparr>
      in Inr (add_data data_source name))"

section \<open>Vocabulary of the properties\<close>

text \<open>The arrays of a list share one shape: no pair of them differs in shape.\<close>

definition same_shape :: "ndarray list \<Rightarrow> bool" where
  "same_shape arrs = (\<forall>a \<in> set arrs. \<forall>b \<in> set arrs. shape a = shape b)"

text \<open>Sample arrays: two samples on a line, and the same two samples as a 1-by-2 array.\<close>

definition ga :: ndarray where
  "ga = \<lparr>shape = [2], data = [1, 2]\<rparr>"

definition gb :: ndarray where
  "gb = \<lparr>shape = [1, 2], data = [1, 2]\<rparr>"

text \<open>A callable that returns its arguments as a tuple.\<close>

definition echo :: "val list \<Rightarrow> error + val" where
  "echo vs = Inr (VSeq vs)"

section \<open>Properties\<close>

subsection \<open>Results and the shape tests\<close>

lemma bindE_Inl [simp]: "bindE (Inl e) f = Inl e"
  by (simp add: bindE_def)

lemma bindE_Inr [simp]: "bindE (Inr v) f = f v"
  by (simp add: bindE_def)

lemma bindE_eq_Inr: "bindE m f = Inr r \<longleftrightarrow> (\<exists>v. m = Inr v \<and> f v = Inr r)"
  by (cases m) simp_all

lemma and_chain_Inr [simp]: "and_chain (Inr b # cs) = (if b then and_chain cs else Inr False)"
  by (cases b) simp_all

lemma shape_attr_Inr: "shape_attr a = Inr s \<longleftrightarrow> (\<exists>x. a = Val (VArr x) \<and> shape x = s)"
  by (cases a rule: shape_attr.cases) auto

lemma shapes_eq_arrays [simp]:
  "shapes_eq (Val (VArr a)) (Val (VArr b)) = Inr (shape a = shape b)"
  by (simp add: shapes_eq_def)

lemma shapes_eq_Inr:
  "shapes_eq a b = Inr t \<longleftrightarrow>
     (\<exists>x y. a = Val (VArr x) \<and> b = Val (VArr y) \<and> t = (shape x = shape y))"
  by (auto simp: shapes_eq_def bindE_eq_Inr shape_attr_Inr)

lemma return_vectors_arrays:
  "return_vectors (Val (VArr x)) (Val (VArr y)) (Val (VArr z))
                  (Val (VArr u)) (Val (VArr v)) (Val (VArr w)) =
     (if shape x = shape y \<and> shape y = shape z \<and> shape u = shape z \<and>
         shape v = shape u \<and> shape w = shape v
      then Inr (x, y, z, u, v, w)
      else Inl (AssertionError ''argument shape are not equal''))"
  by (simp add: return_vectors_def)

lemma and_chain_True:
  "and_chain cs = Inr True \<longleftrightarrow> (\<forall>c \<in> set cs. c = Inr True)"
  by (induction cs rule: and_chain.induct) auto

lemma return_vectors_Inr:
  assumes "return_vectors x y z u v w = Inr r"
  shows "\<exists>x' y' z' u' v' w'.
           x = Val (VArr x') \<and> y = Val (VArr y') \<and> z = Val (VArr z') \<and>
           u = Val (VArr u') \<and> v = Val (VArr v') \<and> w = Val (VArr w') \<and>
           r = (x', y', z', u', v', w') \<and>
           shape x' = shape y' \<and> shape y' = shape z' \<and> shape u' = shape z' \<and>
           shape v' = shape u' \<and> shape w' = shape v'"
proof -
  from assms have ok: "and_chain [shapes_eq x y, shapes_eq y z, shapes_eq u z, shapes_eq v u,
                       shapes_eq w v] = Inr True"
    by (auto simp: return_vectors_def bindE_eq_Inr split: if_splits)
  then have "shapes_eq x y = Inr True" "shapes_eq y z = Inr True" "shapes_eq u z = Inr True"
    "shapes_eq v u = Inr True" "shapes_eq w v = Inr True"
    by (simp_all add: and_chain_True)
  then obtain x' y' z' u' v' w' where
    *: "x = Val (VArr x')" "y = Val (VArr y')" "z = Val (VArr z')"
       "u = Val (VArr u')" "v = Val (VArr v')" "w = Val (VArr w')"
    by (auto simp: shapes_eq_Inr)
  with assms show ?thesis
    by (simp add: return_vectors_arrays split: if_splits)
qed



lemma same_shape_Cons: "same_shape (a # arrs) \<longleftrightarrow> (\<forall>b \<in> set arrs. shape b = shape a)"
proof
  assume h: "same_shape (a # arrs)"
  show "\<forall>b \<in> set arrs. shape b = shape a"
  proof
    fix b
    assume "b \<in> set arrs"
    then have "b \<in> set (a # arrs)" and "a \<in> set (a # arrs)"
      by simp_all
    with h show "shape b = shape a"
      unfolding same_shape_def by blast
  qed
next
  assume h: "\<forall>b \<in> set arrs. shape b = shape a"
  have *: "shape p = shape a" if "p \<in> set (a # arrs)" for p
  proof (cases "p = a")
    case True
    then show ?thesis by (simp only:)
  next
    case False
    with that have "p \<in> set arrs" by simp
    with h show ?thesis by blast
  qed
  show "same_shape (a # arrs)"
    unfolding same_shape_def
  proof (intro ballI)
    fix p q
    assume "p \<in> set (a # arrs)" and "q \<in> set (a # arrs)"
    then have "shape p = shape a" and "shape q = shape a"
      using * by blast+
    then show "shape p = shape q"
      by (simp only:)
  qed
qed

lemma same_shape_six:
  "same_shape [x, y, z, u, v, w] \<longleftrightarrow>
     shape x = shape y \<and> shape y = shape z \<and> shape u = shape z \<and>
     shape v = shape u \<and> shape w = shape v"
  unfolding same_shape_Cons by auto

text \<open>
  C2: a call of \<open>process_regular_vectors\<close> with six arrays returns the six arrays
  unchanged when they share one shape, and fails with the shape-mismatch assertion when
  some pair of them differs in shape.
\<close>

theorem process_regular_vectors_six_arrays:
  "(same_shape [x, y, z, u, v, w] \<longrightarrow>
      process_regular_vectors
        [Val (VArr x), Val (VArr y), Val (VArr z), Val (VArr u), Val (VArr v), Val (VArr w)]
      = Inr (x, y, z, u, v, w)) \<and>
   (\<not> same_shape [x, y, z, u, v, w] \<longrightarrow>
      process_regular_vectors
        [Val (VArr x), Val (VArr y), Val (VArr z), Val (VArr u), Val (VArr v), Val (VArr w)]
      = Inl (AssertionError ''argument shape are not equal''))"
proof (cases "same_shape [x, y, z, u, v, w]")
  case True
  then show ?thesis
    by (simp add: return_vectors_arrays same_shape_six)
next
  case False
  then show ?thesis
    by (simp only: process_regular_vectors.simps return_vectors_arrays same_shape_six
          if_False simp_thms)
qed

theorem process_regular_vectors_six_arrays_witness:
  "same_shape [ga, ga, ga, ga, ga, ga] \<and>
   process_regular_vectors
     [Val (VArr ga), Val (VArr ga), Val (VArr ga), Val (VArr ga), Val (VArr ga), Val (VArr ga)]
   = Inr (ga, ga, ga, ga, ga, ga) \<and>
   \<not> same_shape [ga, ga, ga, ga, gb, ga] \<and>
   process_regular_vectors
     [Val (VArr ga), Val (VArr ga), Val (VArr ga), Val (VArr ga), Val (VArr gb), Val (VArr ga)]
   = Inl (AssertionError ''argument shape are not equal'')"
proof -
  have a: "same_shape [ga, ga, ga, ga, ga, ga]"
    by (simp only: same_shape_six simp_thms)
  have b: "\<not> same_shape [ga, ga, ga, ga, gb, ga]"
    by (simp add: same_shape_six ga_def gb_def)
  from a b process_regular_vectors_six_arrays [of ga ga ga ga ga ga]
       process_regular_vectors_six_arrays [of ga ga ga ga gb ga]
  show ?thesis
    by blast
qed

text \<open>
  C7: in a call of \<open>process_regular_vectors\<close> with four arguments, a fourth argument
  that is not callable gives the invalid-argument error; with a callable, the returned
  \<open>u\<close>, \<open>v\<close>, \<open>w\<close> are what the callable returns on \<open>(x, y, z)\<close>, and the call
  succeeds when the callable returns three arrays of the shape of \<open>x\<close>, \<open>y\<close>, \<open>z\<close>.
\<close>

theorem process_regular_vectors_four:
  "(\<not> callable f \<longrightarrow>
      process_regular_vectors [x, y, z, f]
      = Inl (ValueError ''When 4 arguments are provided, the fourth must be a callable'')) \<and>
   (process_regular_vectors [x, y, z, Callable g] = Inr (x', y', z', u, v, w) \<longrightarrow>
      x = Val (VArr x') \<and> y = Val (VArr y') \<and> z = Val (VArr z') \<and>
      (\<exists>res. g [VArr x', VArr y', VArr z'] = Inr res \<and>
             unpack3 res = Inr (VArr u, VArr v, VArr w))) \<and>
   (g [VArr a, VArr b, VArr c] = Inr (VSeq [VArr p, VArr q, VArr r]) \<and>
    same_shape [a, b, c, p, q, r] \<longrightarrow>
      process_regular_vectors [Val (VArr a), Val (VArr b), Val (VArr c), Callable g]
      = Inr (a, b, c, p, q, r))"
proof (intro conjI impI)
  assume "\<not> callable f"
  then obtain t where "f = Val t"
    by (cases f) simp_all
  then show "process_regular_vectors [x, y, z, f]
      = Inl (ValueError ''When 4 arguments are provided, the fourth must be a callable'')"
    by simp
next
  assume h: "process_regular_vectors [x, y, z, Callable g] = Inr (x', y', z', u, v, w)"
  then obtain res where res: "g [as_val x, as_val y, as_val z] = Inr res"
    and rest: "bindE (unpack3 res)
                 (\<lambda>(u, v, w). return_vectors x y z (Val u) (Val v) (Val w))
               = Inr (x', y', z', u, v, w)"
    by (auto simp: bindE_eq_Inr)
  from rest obtain u0 v0 w0 where un: "unpack3 res = Inr (u0, v0, w0)"
    and ret: "return_vectors x y z (Val u0) (Val v0) (Val w0) = Inr (x', y', z', u, v, w)"
    by (auto simp: bindE_eq_Inr)
  from return_vectors_Inr [OF ret]
  have *: "x = Val (VArr x')" "y = Val (VArr y')" "z = Val (VArr z')"
    "u0 = VArr u" "v0 = VArr v" "w0 = VArr w"
    by auto
  from * show "x = Val (VArr x')" "y = Val (VArr y')" "z = Val (VArr z')"
    by simp_all
  from * res un show "\<exists>res. g [VArr x', VArr y', VArr z'] = Inr res \<and>
             unpack3 res = Inr (VArr u, VArr v, VArr w)"
    by auto
next
  assume "g [VArr a, VArr b, VArr c] = Inr (VSeq [VArr p, VArr q, VArr r]) \<and>
    same_shape [a, b, c, p, q, r]"
  then show "process_regular_vectors [Val (VArr a), Val (VArr b), Val (VArr c), Callable g]
      = Inr (a, b, c, p, q, r)"
    by (simp add: return_vectors_arrays same_shape_six)
qed

theorem process_regular_vectors_four_witness:
  "\<not> callable (Val VNone) \<and>
   process_regular_vectors [Val (VArr ga), Val (VArr ga), Val (VArr ga), Val VNone]
     = Inl (ValueError ''When 4 arguments are provided, the fourth must be a callable'') \<and>
   echo [VArr ga, VArr ga, VArr ga] = Inr (VSeq [VArr ga, VArr ga, VArr ga]) \<and>
   same_shape [ga, ga, ga, ga, ga, ga] \<and>
   process_regular_vectors [Val (VArr ga), Val (VArr ga), Val (VArr ga), Callable echo]
     = Inr (ga, ga, ga, ga, ga, ga) \<and>
   (\<exists>res. echo [VArr ga, VArr ga, VArr ga] = Inr res \<and>
          unpack3 res = Inr (VArr ga, VArr ga, VArr ga))"
proof -
  have a: "\<not> callable (Val VNone)"
    by simp
  have b: "echo [VArr ga, VArr ga, VArr ga] = Inr (VSeq [VArr ga, VArr ga, VArr ga])"
    by (simp add: echo_def)
  have c: "same_shape [ga, ga, ga, ga, ga, ga]"
    by (simp only: same_shape_six simp_thms)
  from a b c
    process_regular_vectors_four
      [of "Val VNone" "Val (VArr ga)" "Val (VArr ga)" "Val (VArr ga)" echo
          ga ga ga ga ga ga ga ga ga ga ga ga]
  show ?thesis
    by blast
qed

end
